theory Spec2Isabelle
  imports Main
begin

section \<open>The login slice: schemas, repository, service, handler\<close>

subsection \<open>Schemas (schemas.py) and the user record\<close>

text \<open>
  \<^verbatim>\<open>LoginRequest\<close> and \<^verbatim>\<open>LoginResponse\<close> are plain data classes with two
  fields each. The fields of \<^verbatim>\<open>LoginRequest\<close> are declared \<^verbatim>\<open>str\<close> with no
  further constraint, so every pair of strings, the empty string included, is a request.
\<close>

record LoginRequest =
  email :: string
  password :: string

record LoginResponse =
  jwt_token :: string
  expires_in :: int

text \<open>
  Modelled from the spec: the user record read by \<^verbatim>\<open>execute\<close> has no class in the
  repository; the service reads the attributes \<^verbatim>\<open>id\<close>, \<^verbatim>\<open>password_hash\<close> and
  \<^verbatim>\<open>is_active\<close> (the field \<^verbatim>\<open>id\<close> is called \<open>user_id\<close> here, \<open>id\<close> being
  the identity function of HOL).
\<close>

record user =
  user_id :: string
  password_hash :: string
  is_active :: bool

subsection \<open>Exceptions\<close>

text \<open>
  Modelled from the spec: the three exception classes raised by \<^verbatim>\<open>execute\<close> are used
  in service.py without a declaration in the repository; they are three distinct
  failures. \<open>NotImplementedError\<close> is the Python builtin raised by the repository
  placeholders, and \<open>OtherError\<close> stands for any other exception a collaborator may raise.
  An exception is a value \<open>Inl e\<close> of the result type.
\<close>

datatype error =
    NotImplementedError
  | UserNotFoundError
  | AccountLockedError
  | InvalidCredentialsError
  | OtherError string

subsection \<open>Repository (repository.py)\<close>

text \<open>
  A repository object is what \<^verbatim>\<open>self.repo\<close> holds: an object with the two methods the
  service calls. The lookup returns a user or \<^verbatim>\<open>None\<close>, or raises.
\<close>

record repository =
  get_user_by_email :: "string \<Rightarrow> error + user option"
  update_last_login :: "string \<Rightarrow> error + unit"

text \<open>The class of the repository: both method bodies are a single \<^verbatim>\<open>raise\<close>.\<close>

definition LoginRepository :: repository where
  "LoginRepository =
     \<lparr> get_user_by_email = (\<lambda>email. Inl NotImplementedError),
       update_last_login = (\<lambda>user_id. Inl NotImplementedError) \<rparr>"

subsection \<open>Names the service module resolves when it runs\<close>

text \<open>
  Modelled from the spec: \<^verbatim>\<open>verify_password\<close> and \<^verbatim>\<open>generate_jwt\<close> are called by
  \<^verbatim>\<open>execute\<close> but defined nowhere in the repository; they are parameters, with the
  signatures \<^verbatim>\<open>verify(plaintext, hash) -> boolean\<close> and
  \<^verbatim>\<open>issue_token(user_id, ttl_seconds) -> token_string\<close>, and like any call they may
  raise. \<open>repository_class\<close> is the class bound to the name \<^verbatim>\<open>LoginRepository\<close>
  that \<^verbatim>\<open>LoginService.__init__\<close> instantiates; in the repository as it stands this
  is \<^const>\<open>LoginRepository\<close>.
\<close>

record service_globals =
  repository_class :: repository
  verify_password :: "string \<Rightarrow> string \<Rightarrow> error + bool"
  generate_jwt :: "string \<Rightarrow> int \<Rightarrow> error + string"

subsection \<open>Service (service.py)\<close>

record LoginService =
  repo :: repository

definition LoginService_init :: "service_globals \<Rightarrow> LoginService" where
  "LoginService_init g = \<lparr> repo = repository_class g \<rparr>"

text \<open>
  Every call that \<^verbatim>\<open>execute\<close> makes to a collaborator is recorded, with its arguments,
  at the end of a call log that is passed in and returned; the log is the observable
  effect of a run.
\<close>

datatype call =
    Call_get_user_by_email string
  | Call_verify_password string string
  | Call_update_last_login string
  | Call_generate_jwt string int

text \<open>
  \<^verbatim>\<open>LoginService.execute\<close>, statement by statement. A raise of the function itself and
  an exception escaping from a collaborator both end the run with \<open>Inl\<close>.
\<close>

definition execute ::
  "service_globals \<Rightarrow> LoginService \<Rightarrow> LoginRequest \<Rightarrow> call list
     \<Rightarrow> (error + LoginResponse) \<times> call list" where
  "execute g self request log =
     (let log1 = log @ [Call_get_user_by_email (email request)] in
      case get_user_by_email (repo self) (email request) of
        Inl e \<Rightarrow> (Inl e, log1)
      | Inr None \<Rightarrow> (Inl UserNotFoundError, log1)
      | Inr (Some user) \<Rightarrow>
          if \<not> is_active user then (Inl AccountLockedError, log1)
          else
            let log2 = log1 @ [Call_verify_password (password request) (password_hash user)] in
            case verify_password g (password request) (password_hash user) of
              Inl e \<Rightarrow> (Inl e, log2)
            | Inr matches \<Rightarrow>
                if \<not> matches then (Inl InvalidCredentialsError, log2)
                else
                  let log3 = log2 @ [Call_update_last_login (user_id user)] in
                  case update_last_login (repo self) (user_id user) of
                    Inl e \<Rightarrow> (Inl e, log3)
                  | Inr _ \<Rightarrow>
                      let log4 = log3 @ [Call_generate_jwt (user_id user) 86400] in
                      case generate_jwt g (user_id user) 86400 of
                        Inl e \<Rightarrow> (Inl e, log4)
                      | Inr token \<Rightarrow>
                          (Inr \<lparr> jwt_token = token, expires_in = 86400 \<rparr>, log4))"

subsection \<open>Handler (handler.py)\<close>

definition handle_login ::
  "service_globals \<Rightarrow> LoginRequest \<Rightarrow> call list \<Rightarrow> (error + LoginResponse) \<times> call list" where
  "handle_login g request log =
     (let service = LoginService_init g in execute g service request log)"

subsection \<open>The objects of an invocation, in a store\<close>








subsection \<open>Concrete collaborators for the examples\<close>

text \<open>
  An in-memory repository with two users, the active \<open>u1\<close> and the locked \<open>u2\<close>, whose
  update succeeds; a verification that accepts the hash \<open>H\<close> for the password \<open>secret\<close>;
  a token issuer that returns a non-empty string.
\<close>

definition memory_repository :: repository where
  "memory_repository =
     \<lparr> get_user_by_email = (\<lambda>email.
         if email = ''ann@example.org''
           then Inr (Some \<lparr> user_id = ''u1'', password_hash = ''H'', is_active = True \<rparr>)
         else if email = ''bob@example.org''
           then Inr (Some \<lparr> user_id = ''u2'', password_hash = ''H'', is_active = False \<rparr>)
         else Inr None),
       update_last_login = (\<lambda>user_id. Inr ()) \<rparr>"

definition memory_globals :: service_globals where
  "memory_globals =
     \<lparr> repository_class = memory_repository,
       verify_password = (\<lambda>plaintext hash. Inr (plaintext = ''secret'' \<and> hash = ''H'')),
       generate_jwt = (\<lambda>user_id ttl. Inr (''jwt.'' @ user_id)) \<rparr>"

definition memory_service :: LoginService where
  "memory_service = \<lparr> repo = memory_repository \<rparr>"

section \<open>Properties of the login sequence\<close>

subsection \<open>Shared facts\<close>

lemma memory_lookup_ann:
  "get_user_by_email (repo memory_service) ''ann@example.org''
     = Inr (Some \<lparr> user_id = ''u1'', password_hash = ''H'', is_active = True \<rparr>)"
  by (simp add: memory_service_def memory_repository_def)

lemma memory_lookup_bob:
  "get_user_by_email (repo memory_service) ''bob@example.org''
     = Inr (Some \<lparr> user_id = ''u2'', password_hash = ''H'', is_active = False \<rparr>)"
  by (simp add: memory_service_def memory_repository_def)

lemma memory_lookup_eve:
  "get_user_by_email (repo memory_service) ''eve@example.org'' = Inr None"
  by (simp add: memory_service_def memory_repository_def)

text \<open>The value of \<^const>\<open>execute\<close> on each of its eight paths.\<close>

lemma execute_lookup_raises:
  assumes "get_user_by_email (repo self) (email request) = Inl e"
  shows "execute g self request log = (Inl e, log @ [Call_get_user_by_email (email request)])"
  using assms by (simp add: execute_def)

lemma execute_lookup_none:
  assumes "get_user_by_email (repo self) (email request) = Inr None"
  shows "execute g self request log
           = (Inl UserNotFoundError, log @ [Call_get_user_by_email (email request)])"
  using assms by (simp add: execute_def)

lemma execute_inactive:
  assumes "get_user_by_email (repo self) (email request) = Inr (Some user)"
    and "\<not> is_active user"
  shows "execute g self request log
           = (Inl AccountLockedError, log @ [Call_get_user_by_email (email request)])"
  using assms by (simp add: execute_def)

lemma execute_verify_raises:
  assumes "get_user_by_email (repo self) (email request) = Inr (Some user)"
    and "is_active user"
    and "verify_password g (password request) (password_hash user) = Inl e"
  shows "execute g self request log
           = (Inl e, log @ [Call_get_user_by_email (email request),
                            Call_verify_password (password request) (password_hash user)])"
  using assms by (simp add: execute_def)

lemma execute_mismatch:
  assumes "get_user_by_email (repo self) (email request) = Inr (Some user)"
    and "is_active user"
    and "verify_password g (password request) (password_hash user) = Inr False"
  shows "execute g self request log
           = (Inl InvalidCredentialsError,
              log @ [Call_get_user_by_email (email request),
                     Call_verify_password (password request) (password_hash user)])"
  using assms by (simp add: execute_def)

lemma execute_update_raises:
  assumes "get_user_by_email (repo self) (email request) = Inr (Some user)"
    and "is_active user"
    and "verify_password g (password request) (password_hash user) = Inr True"
    and "update_last_login (repo self) (user_id user) = Inl e"
  shows "execute g self request log
           = (Inl e, log @ [Call_get_user_by_email (email request),
                            Call_verify_password (password request) (password_hash user),
                            Call_update_last_login (user_id user)])"
  using assms by (simp add: execute_def)

lemma execute_jwt_raises:
  assumes "get_user_by_email (repo self) (email request) = Inr (Some user)"
    and "is_active user"
    and "verify_password g (password request) (password_hash user) = Inr True"
    and "update_last_login (repo self) (user_id user) = Inr ()"
    and "generate_jwt g (user_id user) 86400 = Inl e"
  shows "execute g self request log
           = (Inl e, log @ [Call_get_user_by_email (email request),
                            Call_verify_password (password request) (password_hash user),
                            Call_update_last_login (user_id user),
                            Call_generate_jwt (user_id user) 86400])"
  using assms by (simp add: execute_def)

lemma execute_returns:
  assumes "get_user_by_email (repo self) (email request) = Inr (Some user)"
    and "is_active user"
    and "verify_password g (password request) (password_hash user) = Inr True"
    and "update_last_login (repo self) (user_id user) = Inr ()"
    and "generate_jwt g (user_id user) 86400 = Inr token"
  shows "execute g self request log
           = (Inr \<lparr> jwt_token = token, expires_in = 86400 \<rparr>,
              log @ [Call_get_user_by_email (email request),
                     Call_verify_password (password request) (password_hash user),
                     Call_update_last_login (user_id user),
                     Call_generate_jwt (user_id user) 86400])"
  using assms by (simp add: execute_def)

text \<open>Every run takes exactly one of the eight paths.\<close>

lemma execute_paths
  [case_names lookup_raises no_user inactive verify_raises mismatch update_raises
     jwt_raises returns]:
  obtains
    e where "get_user_by_email (repo self) (email request) = Inl e"
  | "get_user_by_email (repo self) (email request) = Inr None"
  | user where "get_user_by_email (repo self) (email request) = Inr (Some user)"
      and "\<not> is_active user"
  | user e where "get_user_by_email (repo self) (email request) = Inr (Some user)"
      and "is_active user"
      and "verify_password g (password request) (password_hash user) = Inl e"
  | user where "get_user_by_email (repo self) (email request) = Inr (Some user)"
      and "is_active user"
      and "verify_password g (password request) (password_hash user) = Inr False"
  | user e where "get_user_by_email (repo self) (email request) = Inr (Some user)"
      and "is_active user"
      and "verify_password g (password request) (password_hash user) = Inr True"
      and "update_last_login (repo self) (user_id user) = Inl e"
  | user e where "get_user_by_email (repo self) (email request) = Inr (Some user)"
      and "is_active user"
      and "verify_password g (password request) (password_hash user) = Inr True"
      and "update_last_login (repo self) (user_id user) = Inr ()"
      and "generate_jwt g (user_id user) 86400 = Inl e"
  | user token where "get_user_by_email (repo self) (email request) = Inr (Some user)"
      and "is_active user"
      and "verify_password g (password request) (password_hash user) = Inr True"
      and "update_last_login (repo self) (user_id user) = Inr ()"
      and "generate_jwt g (user_id user) 86400 = Inr token"
proof (cases "get_user_by_email (repo self) (email request)")
  case (Inl e)
  then show ?thesis using that(1) by blast
next
  case (Inr found)
  show ?thesis
  proof (cases found)
    case None
    with Inr show ?thesis using that(2) by blast
  next
    case (Some user)
    note lookup = Inr [unfolded Some]
    show ?thesis
    proof (cases "is_active user")
      case False
      with lookup show ?thesis using that(3) by blast
    next
      case True
      note active = True
      show ?thesis
      proof (cases "verify_password g (password request) (password_hash user)")
        case (Inl e)
        with lookup active show ?thesis using that(4) by blast
      next
        case (Inr matches)
        show ?thesis
        proof (cases matches)
          case False
          with Inr have "verify_password g (password request) (password_hash user) = Inr False"
            by simp
          with lookup active show ?thesis using that(5) by blast
        next
          case True
          with Inr have verified:
            "verify_password g (password request) (password_hash user) = Inr True"
            by simp
          show ?thesis
          proof (cases "update_last_login (repo self) (user_id user)")
            case (Inl e)
            with lookup active verified show ?thesis using that(6) by blast
          next
            case (Inr u)
            then have updated: "update_last_login (repo self) (user_id user) = Inr ()"
              by simp
            show ?thesis
            proof (cases "generate_jwt g (user_id user) 86400")
              case (Inl e)
              with lookup active verified updated show ?thesis using that(7) by blast
            next
              case (Inr token)
              with lookup active verified updated show ?thesis using that(8) by blast
            qed
          qed
        qed
      qed
    qed
  qed
qed

text \<open>Consequences of the path analysis used by several properties below.\<close>

lemma execute_calls_prefix:
  "\<exists>(user::user) n. 0 < n \<and> snd (execute g self request log)
        = log @ take n [Call_get_user_by_email (email request),
                        Call_verify_password (password request) (password_hash user),
                        Call_update_last_login (user_id user),
                        Call_generate_jwt (user_id user) 86400]"
  (is "\<exists>(user::user) n. 0 < n \<and> ?run = log @ take n (?calls user)")
proof (cases rule: execute_paths [where self = self and request = request and g = g])
  case (lookup_raises e)
  have "?run = log @ take (Suc 0) (?calls undefined)"
    by (simp add: execute_lookup_raises [OF lookup_raises])
  then show ?thesis by (intro exI [of _ undefined] exI [of _ "Suc 0"]) simp
next
  case no_user
  have "?run = log @ take (Suc 0) (?calls undefined)"
    by (simp add: execute_lookup_none [OF no_user])
  then show ?thesis by (intro exI [of _ undefined] exI [of _ "Suc 0"]) simp
next
  case (inactive user)
  have "?run = log @ take (Suc 0) (?calls user)"
    by (simp add: execute_inactive [OF inactive])
  then show ?thesis by (intro exI [of _ user] exI [of _ "Suc 0"]) simp
next
  case (verify_raises user e)
  have "?run = log @ take (Suc (Suc 0)) (?calls user)"
    by (simp add: execute_verify_raises [OF verify_raises])
  then show ?thesis by (intro exI [of _ user] exI [of _ "Suc (Suc 0)"]) simp
next
  case (mismatch user)
  have "?run = log @ take (Suc (Suc 0)) (?calls user)"
    by (simp add: execute_mismatch [OF mismatch])
  then show ?thesis by (intro exI [of _ user] exI [of _ "Suc (Suc 0)"]) simp
next
  case (update_raises user e)
  have "?run = log @ take (Suc (Suc (Suc 0))) (?calls user)"
    by (simp add: execute_update_raises [OF update_raises])
  then show ?thesis by (intro exI [of _ user] exI [of _ "Suc (Suc (Suc 0))"]) simp
next
  case (jwt_raises user e)
  have "?run = log @ take (Suc (Suc (Suc (Suc 0)))) (?calls user)"
    by (simp add: execute_jwt_raises [OF jwt_raises])
  then show ?thesis by (intro exI [of _ user] exI [of _ "Suc (Suc (Suc (Suc 0)))"]) simp
next
  case (returns user token)
  have "?run = log @ take (Suc (Suc (Suc (Suc 0)))) (?calls user)"
    by (simp add: execute_returns [OF returns])
  then show ?thesis by (intro exI [of _ user] exI [of _ "Suc (Suc (Suc (Suc 0)))"]) simp
qed

lemma execute_returns_only_after_guards:
  assumes "fst (execute g self request log) = Inr r"
  shows "\<exists>user token.
            get_user_by_email (repo self) (email request) = Inr (Some user)
          \<and> is_active user
          \<and> verify_password g (password request) (password_hash user) = Inr True
          \<and> update_last_login (repo self) (user_id user) = Inr ()
          \<and> generate_jwt g (user_id user) 86400 = Inr token
          \<and> r = \<lparr> jwt_token = token, expires_in = 86400 \<rparr>"
proof (cases rule: execute_paths [where self = self and request = request and g = g])
  case (lookup_raises e)
  with assms show ?thesis by (simp add: execute_lookup_raises [OF lookup_raises])
next
  case no_user
  with assms show ?thesis by (simp add: execute_lookup_none [OF no_user])
next
  case (inactive user)
  with assms show ?thesis by (simp add: execute_inactive [OF inactive])
next
  case (verify_raises user e)
  from assms show ?thesis by (simp add: execute_verify_raises [OF verify_raises])
next
  case (mismatch user)
  from assms show ?thesis by (simp add: execute_mismatch [OF mismatch])
next
  case (update_raises user e)
  from assms show ?thesis by (simp add: execute_update_raises [OF update_raises])
next
  case (jwt_raises user e)
  from assms show ?thesis by (simp add: execute_jwt_raises [OF jwt_raises])
next
  case (returns user token)
  from assms have "r = \<lparr> jwt_token = token, expires_in = 86400 \<rparr>"
    by (simp add: execute_returns [OF returns])
  with returns show ?thesis by blast
qed



lemma execute_first_call:
  "\<exists>t. snd (execute g self request log) = log @ Call_get_user_by_email (email request) # t"
  by (cases rule: execute_paths [where self = self and request = request and g = g])
    (simp_all add: execute_lookup_raises execute_lookup_none execute_inactive
       execute_verify_raises execute_mismatch execute_update_raises execute_jwt_raises
       execute_returns)




subsection \<open>The failing guards\<close>

text \<open>
  C2. For every email for which the user lookup returns no user record,
  \<^verbatim>\<open>execute\<close> raises \<open>UserNotFoundError\<close> and returns no result.
\<close>

theorem execute_user_not_found:
  assumes "get_user_by_email (repo self) (email request) = Inr None"
  shows "fst (execute g self request log) = Inl UserNotFoundError"
  using assms by (simp add: execute_def)

theorem execute_user_not_found_witness:
  "get_user_by_email (repo memory_service) (email \<lparr> email = ''eve@example.org'', password = ''secret'' \<rparr>) = Inr None
   \<and> fst (execute memory_globals memory_service
             \<lparr> email = ''eve@example.org'', password = ''secret'' \<rparr> []) = Inl UserNotFoundError"
  using execute_user_not_found [of memory_service
      "\<lparr> email = ''eve@example.org'', password = ''secret'' \<rparr>" memory_globals "[]"]
  by (simp add: memory_lookup_eve)

text \<open>
  C3. For every found user whose \<open>is_active\<close> flag is false, \<^verbatim>\<open>execute\<close> raises
  \<open>AccountLockedError\<close> whatever password is supplied, and the password verification is
  not consulted: the only call of the run is the lookup, and the outcome is the same
  whatever primitive \<open>v\<close> stands for \<^verbatim>\<open>verify_password\<close>.
\<close>

theorem execute_account_locked:
  assumes "get_user_by_email (repo self) em = Inr (Some user)"
    and "\<not> is_active user"
  shows "execute g self \<lparr> email = em, password = pw \<rparr> log
           = (Inl AccountLockedError, log @ [Call_get_user_by_email em])
         \<and> execute (g\<lparr> verify_password := v \<rparr>) self \<lparr> email = em, password = pw \<rparr> log
           = execute g self \<lparr> email = em, password = pw \<rparr> log"
proof -
  have lookup: "get_user_by_email (repo self) (email \<lparr> email = em, password = pw \<rparr>)
                  = Inr (Some user)"
    using assms(1) by simp
  have "execute g' self \<lparr> email = em, password = pw \<rparr> log
          = (Inl AccountLockedError, log @ [Call_get_user_by_email em])" for g'
    using execute_inactive [OF lookup assms(2), of g' log] by simp
  then show ?thesis by simp
qed

theorem execute_account_locked_witness:
  "get_user_by_email (repo memory_service) ''bob@example.org''
     = Inr (Some \<lparr> user_id = ''u2'', password_hash = ''H'', is_active = False \<rparr>)
   \<and> execute memory_globals memory_service
         \<lparr> email = ''bob@example.org'', password = ''secret'' \<rparr> []
       = (Inl AccountLockedError, [Call_get_user_by_email ''bob@example.org''])
   \<and> execute memory_globals memory_service
         \<lparr> email = ''bob@example.org'', password = ''wrong'' \<rparr> []
       = (Inl AccountLockedError, [Call_get_user_by_email ''bob@example.org''])"
  using execute_account_locked [OF memory_lookup_bob, of memory_globals "''secret''" "[]"]
    execute_account_locked [OF memory_lookup_bob, of memory_globals "''wrong''" "[]"]
  by (simp add: memory_lookup_bob)

text \<open>
  C4. For every active user, if the password verification reports that the supplied
  password does not match the stored hash, \<^verbatim>\<open>execute\<close> raises
  \<open>InvalidCredentialsError\<close>.
\<close>

theorem execute_invalid_credentials:
  assumes "get_user_by_email (repo self) (email request) = Inr (Some user)"
    and "is_active user"
    and "verify_password g (password request) (password_hash user) = Inr False"
  shows "fst (execute g self request log) = Inl InvalidCredentialsError"
  using execute_mismatch [OF assms] by simp

theorem execute_invalid_credentials_witness:
  "get_user_by_email (repo memory_service)
       (email \<lparr> email = ''ann@example.org'', password = ''wrong'' \<rparr>)
     = Inr (Some \<lparr> user_id = ''u1'', password_hash = ''H'', is_active = True \<rparr>)
   \<and> verify_password memory_globals ''wrong'' ''H'' = Inr False
   \<and> fst (execute memory_globals memory_service
             \<lparr> email = ''ann@example.org'', password = ''wrong'' \<rparr> [])
       = Inl InvalidCredentialsError"
  using execute_invalid_credentials [of memory_service
      "\<lparr> email = ''ann@example.org'', password = ''wrong'' \<rparr>"
      "\<lparr> user_id = ''u1'', password_hash = ''H'', is_active = True \<rparr>" memory_globals "[]"]
  by (simp add: memory_lookup_ann memory_globals_def)

subsection \<open>The order of the guards\<close>

text \<open>
  C1. For every request \<^verbatim>\<open>execute\<close> applies the guards in the fixed order existence,
  active status, password match, and stops at the first that fails:
  \<^item> the calls of a run are an initial part of the fixed sequence lookup, verification,
    last-login update, token issuance;
  \<^item> a response is returned only when the lookup found a user, that user is active and
    the verification returned true, and then it is the complete response, made of the
    issued token and 86400;
  \<^item> a missing user ends the run after the lookup alone; an inactive user ends it after
    the lookup alone, before any verification; a mismatch ends it after the verification.
\<close>

theorem execute_guards_in_order:
  "(\<exists>(user::user) n. 0 < n \<and> snd (execute g self request log)
        = log @ take n [Call_get_user_by_email (email request),
                        Call_verify_password (password request) (password_hash user),
                        Call_update_last_login (user_id user),
                        Call_generate_jwt (user_id user) 86400])
   \<and> (\<forall>r. fst (execute g self request log) = Inr r \<longrightarrow>
        (\<exists>user token.
            get_user_by_email (repo self) (email request) = Inr (Some user)
          \<and> is_active user
          \<and> verify_password g (password request) (password_hash user) = Inr True
          \<and> generate_jwt g (user_id user) 86400 = Inr token
          \<and> r = \<lparr> jwt_token = token, expires_in = 86400 \<rparr>))
   \<and> (get_user_by_email (repo self) (email request) = Inr None \<longrightarrow>
        execute g self request log
          = (Inl UserNotFoundError, log @ [Call_get_user_by_email (email request)]))
   \<and> (\<forall>user. get_user_by_email (repo self) (email request) = Inr (Some user)
          \<and> \<not> is_active user \<longrightarrow>
        execute g self request log
          = (Inl AccountLockedError, log @ [Call_get_user_by_email (email request)]))
   \<and> (\<forall>user. get_user_by_email (repo self) (email request) = Inr (Some user)
          \<and> is_active user
          \<and> verify_password g (password request) (password_hash user) = Inr False \<longrightarrow>
        execute g self request log
          = (Inl InvalidCredentialsError,
             log @ [Call_get_user_by_email (email request),
                    Call_verify_password (password request) (password_hash user)]))"
proof (intro conjI allI impI)
  show "\<exists>(user::user) n. 0 < n \<and> snd (execute g self request log)
        = log @ take n [Call_get_user_by_email (email request),
                        Call_verify_password (password request) (password_hash user),
                        Call_update_last_login (user_id user),
                        Call_generate_jwt (user_id user) 86400]"
    by (rule execute_calls_prefix)
next
  fix r
  assume "fst (execute g self request log) = Inr r"
  from execute_returns_only_after_guards [OF this]
  show "\<exists>user token.
            get_user_by_email (repo self) (email request) = Inr (Some user)
          \<and> is_active user
          \<and> verify_password g (password request) (password_hash user) = Inr True
          \<and> generate_jwt g (user_id user) 86400 = Inr token
          \<and> r = \<lparr> jwt_token = token, expires_in = 86400 \<rparr>"
    by blast
next
  assume "get_user_by_email (repo self) (email request) = Inr None"
  then show "execute g self request log
          = (Inl UserNotFoundError, log @ [Call_get_user_by_email (email request)])"
    by (rule execute_lookup_none)
next
  fix user
  assume "get_user_by_email (repo self) (email request) = Inr (Some user)
          \<and> \<not> is_active user"
  then show "execute g self request log
          = (Inl AccountLockedError, log @ [Call_get_user_by_email (email request)])"
    by (simp add: execute_inactive)
next
  fix user
  assume "get_user_by_email (repo self) (email request) = Inr (Some user)
          \<and> is_active user
          \<and> verify_password g (password request) (password_hash user) = Inr False"
  then show "execute g self request log
          = (Inl InvalidCredentialsError,
             log @ [Call_get_user_by_email (email request),
                    Call_verify_password (password request) (password_hash user)])"
    by (simp add: execute_mismatch)
qed

theorem execute_guards_in_order_witness:
  "execute memory_globals memory_service
       \<lparr> email = ''eve@example.org'', password = ''secret'' \<rparr> []
     = (Inl UserNotFoundError, [Call_get_user_by_email ''eve@example.org''])
   \<and> execute memory_globals memory_service
       \<lparr> email = ''bob@example.org'', password = ''wrong'' \<rparr> []
     = (Inl AccountLockedError, [Call_get_user_by_email ''bob@example.org''])
   \<and> execute memory_globals memory_service
       \<lparr> email = ''ann@example.org'', password = ''wrong'' \<rparr> []
     = (Inl InvalidCredentialsError,
        [Call_get_user_by_email ''ann@example.org'', Call_verify_password ''wrong'' ''H''])
   \<and> fst (execute memory_globals memory_service
            \<lparr> email = ''ann@example.org'', password = ''secret'' \<rparr> [])
     = Inr \<lparr> jwt_token = ''jwt.u1'', expires_in = 86400 \<rparr>
   \<and> (\<exists>user token.
          get_user_by_email (repo memory_service) ''ann@example.org'' = Inr (Some user)
        \<and> is_active user
        \<and> verify_password memory_globals ''secret'' (password_hash user) = Inr True
        \<and> generate_jwt memory_globals (user_id user) 86400 = Inr token
        \<and> \<lparr> jwt_token = ''jwt.u1'', expires_in = 86400 \<rparr>
            = \<lparr> jwt_token = token, expires_in = 86400 \<rparr>)"
proof -
  let ?ann = "\<lparr> user_id = ''u1'', password_hash = ''H'', is_active = True \<rparr>"
  let ?bob = "\<lparr> user_id = ''u2'', password_hash = ''H'', is_active = False \<rparr>"
  note eve = execute_guards_in_order [of memory_globals memory_service
      "\<lparr> email = ''eve@example.org'', password = ''secret'' \<rparr>" "[]"]
  note bob = execute_guards_in_order [of memory_globals memory_service
      "\<lparr> email = ''bob@example.org'', password = ''wrong'' \<rparr>" "[]"]
  note ann_wrong = execute_guards_in_order [of memory_globals memory_service
      "\<lparr> email = ''ann@example.org'', password = ''wrong'' \<rparr>" "[]"]
  note ann = execute_guards_in_order [of memory_globals memory_service
      "\<lparr> email = ''ann@example.org'', password = ''secret'' \<rparr>" "[]"]
  have 1: "execute memory_globals memory_service
       \<lparr> email = ''eve@example.org'', password = ''secret'' \<rparr> []
     = (Inl UserNotFoundError, [Call_get_user_by_email ''eve@example.org''])"
    using eve by (simp add: memory_lookup_eve)
  have 2: "execute memory_globals memory_service
       \<lparr> email = ''bob@example.org'', password = ''wrong'' \<rparr> []
     = (Inl AccountLockedError, [Call_get_user_by_email ''bob@example.org''])"
    using bob [THEN conjunct2, THEN conjunct2, THEN conjunct2, THEN conjunct1, rule_format,
        of ?bob]
    by (simp add: memory_lookup_bob)
  have 3: "execute memory_globals memory_service
       \<lparr> email = ''ann@example.org'', password = ''wrong'' \<rparr> []
     = (Inl InvalidCredentialsError,
        [Call_get_user_by_email ''ann@example.org'', Call_verify_password ''wrong'' ''H''])"
    using ann_wrong [THEN conjunct2, THEN conjunct2, THEN conjunct2, THEN conjunct2,
        rule_format, of ?ann]
    by (simp add: memory_lookup_ann memory_globals_def)
  have 4: "fst (execute memory_globals memory_service
            \<lparr> email = ''ann@example.org'', password = ''secret'' \<rparr> [])
     = Inr \<lparr> jwt_token = ''jwt.u1'', expires_in = 86400 \<rparr>"
    by (simp add: execute_def memory_service_def memory_repository_def memory_globals_def)
  have 5: "\<exists>user token.
          get_user_by_email (repo memory_service) ''ann@example.org'' = Inr (Some user)
        \<and> is_active user
        \<and> verify_password memory_globals ''secret'' (password_hash user) = Inr True
        \<and> generate_jwt memory_globals (user_id user) 86400 = Inr token
        \<and> \<lparr> jwt_token = ''jwt.u1'', expires_in = 86400 \<rparr>
            = \<lparr> jwt_token = token, expires_in = 86400 \<rparr>"
    using ann [THEN conjunct2, THEN conjunct1, rule_format, OF 4] by simp
  from 1 2 3 4 5 show ?thesis by (intro conjI)
qed

subsection \<open>The successful run\<close>

text \<open>
  C5 (as amended). For every active user whose supplied password matches the stored
  hash, if the last-login update returns and the token issuer returns a non-empty token
  for that user and 86400 seconds, then \<^verbatim>\<open>execute\<close> returns a response whose
  \<open>expires_in\<close> is 86400 and whose \<open>jwt_token\<close> is that token, hence non-empty.
\<close>

theorem execute_matching_password:
  assumes "get_user_by_email (repo self) (email request) = Inr (Some user)"
    and "is_active user"
    and "verify_password g (password request) (password_hash user) = Inr True"
    and "update_last_login (repo self) (user_id user) = Inr ()"
    and "generate_jwt g (user_id user) 86400 = Inr token"
    and "token \<noteq> []"
  shows "\<exists>r. fst (execute g self request log) = Inr r
           \<and> expires_in r = 86400 \<and> jwt_token r = token \<and> jwt_token r \<noteq> []"
  using execute_returns [OF assms(1-5), of log] assms(6) by simp

theorem execute_matching_password_witness:
  "get_user_by_email (repo memory_service) ''ann@example.org''
     = Inr (Some \<lparr> user_id = ''u1'', password_hash = ''H'', is_active = True \<rparr>)
   \<and> verify_password memory_globals ''secret'' ''H'' = Inr True
   \<and> update_last_login (repo memory_service) ''u1'' = Inr ()
   \<and> generate_jwt memory_globals ''u1'' 86400 = Inr ''jwt.u1''
   \<and> (\<exists>r. fst (execute memory_globals memory_service
                 \<lparr> email = ''ann@example.org'', password = ''secret'' \<rparr> []) = Inr r
           \<and> expires_in r = 86400 \<and> jwt_token r = ''jwt.u1'' \<and> jwt_token r \<noteq> [])"
proof -
  have a: "get_user_by_email (repo memory_service)
             (email \<lparr> email = ''ann@example.org'', password = ''secret'' \<rparr>)
           = Inr (Some \<lparr> user_id = ''u1'', password_hash = ''H'', is_active = True \<rparr>)"
    by (simp add: memory_lookup_ann)
  have b: "is_active \<lparr> user_id = ''u1'', password_hash = ''H'', is_active = True \<rparr>"
    by simp
  have c: "verify_password memory_globals
             (password \<lparr> email = ''ann@example.org'', password = ''secret'' \<rparr>)
             (password_hash \<lparr> user_id = ''u1'', password_hash = ''H'', is_active = True \<rparr>)
           = Inr True"
    by (simp add: memory_globals_def)
  have d: "update_last_login (repo memory_service)
             (user_id \<lparr> user_id = ''u1'', password_hash = ''H'', is_active = True \<rparr>)
           = Inr ()"
    by (simp add: memory_service_def memory_repository_def)
  have e: "generate_jwt memory_globals
             (user_id \<lparr> user_id = ''u1'', password_hash = ''H'', is_active = True \<rparr>) 86400
           = Inr ''jwt.u1''"
    by (simp add: memory_globals_def)
  have f: "''jwt.u1'' \<noteq> []" by simp
  from execute_matching_password [OF a b c d e f, of "[]"] a c d e
  show ?thesis by simp
qed

text \<open>
  Without the two added conditions the statement fails. For the same active user and
  matching password, a repository whose \<^verbatim>\<open>update_last_login\<close> is the placeholder of
  repository.py makes \<^verbatim>\<open>execute\<close> raise \<open>NotImplementedError\<close> instead of returning,
  and a token issuer that returns the empty string makes it return an empty token:
  \<^verbatim>\<open>execute\<close> passes the issued token on unchecked.
\<close>

theorem execute_matching_password_counterexample:
  "get_user_by_email memory_repository ''ann@example.org''
     = Inr (Some \<lparr> user_id = ''u1'', password_hash = ''H'', is_active = True \<rparr>)
   \<and> verify_password memory_globals ''secret'' ''H'' = Inr True
   \<and> fst (execute memory_globals
            \<lparr> repo = memory_repository
                 \<lparr> update_last_login := update_last_login LoginRepository \<rparr> \<rparr>
            \<lparr> email = ''ann@example.org'', password = ''secret'' \<rparr> [])
       = Inl NotImplementedError
   \<and> fst (execute (memory_globals \<lparr> generate_jwt := (\<lambda>user_id ttl. Inr []) \<rparr>)
            memory_service
            \<lparr> email = ''ann@example.org'', password = ''secret'' \<rparr> [])
       = Inr \<lparr> jwt_token = [], expires_in = 86400 \<rparr>"
  by (simp add: execute_def memory_service_def memory_repository_def memory_globals_def
      LoginRepository_def)

subsection \<open>The last-login update and the token\<close>





text \<open>
  C7. On every successful run, the \<^verbatim>\<open>expires_in\<close> argument passed to \<^verbatim>\<open>generate_jwt\<close>
  is the \<open>expires_in\<close> field of the returned response, and both are 86400; the token of
  the response is the one issued by that call.
\<close>

theorem generate_jwt_ttl_is_expires_in:
  assumes "execute g self request log = (Inr r, log')"
  shows "expires_in r = 86400
       \<and> (\<exists>user::user.
            log' = log @ [Call_get_user_by_email (email request),
                          Call_verify_password (password request) (password_hash user),
                          Call_update_last_login (user_id user),
                          Call_generate_jwt (user_id user) (expires_in r)]
          \<and> generate_jwt g (user_id user) (expires_in r) = Inr (jwt_token r))"
proof -
  from assms have "fst (execute g self request log) = Inr r" by simp
  from execute_returns_only_after_guards [OF this]
  obtain user token where
    path: "get_user_by_email (repo self) (email request) = Inr (Some user)"
      "is_active user"
      "verify_password g (password request) (password_hash user) = Inr True"
      "update_last_login (repo self) (user_id user) = Inr ()"
      "generate_jwt g (user_id user) 86400 = Inr token"
    and r: "r = \<lparr> jwt_token = token, expires_in = 86400 \<rparr>"
    by blast
  from execute_returns [OF path, of log] assms
  have "log' = log @ [Call_get_user_by_email (email request),
                      Call_verify_password (password request) (password_hash user),
                      Call_update_last_login (user_id user),
                      Call_generate_jwt (user_id user) 86400]"
    by simp
  with path(5) r show ?thesis by auto
qed

theorem generate_jwt_ttl_is_expires_in_witness:
  "execute memory_globals memory_service
       \<lparr> email = ''ann@example.org'', password = ''secret'' \<rparr> []
     = (Inr \<lparr> jwt_token = ''jwt.u1'', expires_in = 86400 \<rparr>,
        [Call_get_user_by_email ''ann@example.org'',
         Call_verify_password ''secret'' ''H'',
         Call_update_last_login ''u1'',
         Call_generate_jwt ''u1'' 86400])
   \<and> expires_in \<lparr> jwt_token = ''jwt.u1'', expires_in = 86400 \<rparr> = 86400
   \<and> (\<exists>user::user.
         [Call_get_user_by_email ''ann@example.org'',
          Call_verify_password ''secret'' ''H'',
          Call_update_last_login ''u1'',
          Call_generate_jwt ''u1'' 86400]
           = [Call_get_user_by_email ''ann@example.org'',
              Call_verify_password ''secret'' (password_hash user),
              Call_update_last_login (user_id user),
              Call_generate_jwt (user_id user) 86400]
       \<and> generate_jwt memory_globals (user_id user) 86400 = Inr ''jwt.u1'')"
proof -
  have run: "execute memory_globals memory_service
       \<lparr> email = ''ann@example.org'', password = ''secret'' \<rparr> []
     = (Inr \<lparr> jwt_token = ''jwt.u1'', expires_in = 86400 \<rparr>,
        [Call_get_user_by_email ''ann@example.org'',
         Call_verify_password ''secret'' ''H'',
         Call_update_last_login ''u1'',
         Call_generate_jwt ''u1'' 86400])"
    by (simp add: execute_def memory_service_def memory_repository_def memory_globals_def)
  from generate_jwt_ttl_is_expires_in [OF run] run show ?thesis by simp
qed

subsection \<open>The repository as it stands\<close>

text \<open>
  C8. Both methods of \<^const>\<open>LoginRepository\<close> raise \<open>NotImplementedError\<close> on every call.
  Hence every run of the login sequence through it, whether \<^verbatim>\<open>execute\<close> on a service
  holding it or \<^verbatim>\<open>handle_login\<close> with \<^verbatim>\<open>LoginRepository\<close> bound to it, whatever the
  request and the two primitives, raises \<open>NotImplementedError\<close> with the lookup as its
  only call, before any guard is evaluated.
\<close>

theorem LoginRepository_not_implemented:
  "get_user_by_email LoginRepository em = Inl NotImplementedError
   \<and> update_last_login LoginRepository uid = Inl NotImplementedError
   \<and> execute g \<lparr> repo = LoginRepository \<rparr> request log
       = (Inl NotImplementedError, log @ [Call_get_user_by_email (email request)])
   \<and> handle_login (g \<lparr> repository_class := LoginRepository \<rparr>) request log
       = (Inl NotImplementedError, log @ [Call_get_user_by_email (email request)])"
  by (simp add: LoginRepository_def execute_def handle_login_def LoginService_init_def)

subsection \<open>The handler\<close>


text \<open>
  C10. A request whose email is empty, or whose password is empty, is a request like any
  other: the first call of \<^verbatim>\<open>execute\<close>, and of \<^verbatim>\<open>handle_login\<close>, is the user lookup
  with the email as given. Neither the schema nor the service nor the handler checks
  that the two strings are non-empty.
\<close>

theorem execute_accepts_empty_credentials:
  "(\<exists>t. snd (execute g self \<lparr> email = [], password = pw \<rparr> log)
          = log @ Call_get_user_by_email [] # t)
   \<and> (\<exists>t. snd (execute g self \<lparr> email = em, password = [] \<rparr> log)
          = log @ Call_get_user_by_email em # t)
   \<and> (\<exists>t. snd (handle_login g \<lparr> email = [], password = pw \<rparr> log)
          = log @ Call_get_user_by_email [] # t)
   \<and> (\<exists>t. snd (handle_login g \<lparr> email = em, password = [] \<rparr> log)
          = log @ Call_get_user_by_email em # t)"
  using execute_first_call [of g self "\<lparr> email = [], password = pw \<rparr>" log]
    execute_first_call [of g self "\<lparr> email = em, password = [] \<rparr>" log]
    execute_first_call [of g "LoginService_init g" "\<lparr> email = [], password = pw \<rparr>" log]
    execute_first_call [of g "LoginService_init g" "\<lparr> email = em, password = [] \<rparr>" log]
  by (simp add: handle_login_def)

end
